theory Spec2Isabelle
  imports Complex_Main
begin

section \<open>Numeric values\<close>

text \<open>
  The module \<^verbatim>\<open>gravity_waves.py\<close> is a flat collection of closed-form formulas over
  NumPy floating-point values.  Finite floating-point numbers are idealised as real
  numbers (rounding and overflow are not modelled, and a zero is a positive zero).  What
  is kept of IEEE-754 is the part the formulas can reach from finite arguments: a
  division by zero and a function applied outside its domain do not raise, they return
  an infinity or a NaN, which then travels through the rest of the expression.
\<close>

datatype npfloat = Fin real | PInf | NInf | NaN

fun np_neg :: "npfloat \<Rightarrow> npfloat" where
  "np_neg (Fin a) = Fin (- a)"
| "np_neg PInf = NInf"
| "np_neg NInf = PInf"
| "np_neg NaN = NaN"

fun np_times :: "npfloat \<Rightarrow> npfloat \<Rightarrow> npfloat" where
  "np_times (Fin a) (Fin b) = Fin (a * b)"
| "np_times NaN y = NaN"
| "np_times x NaN = NaN"
| "np_times (Fin a) y = (if a = 0 then NaN else if 0 < a then y else np_neg y)"
| "np_times x (Fin b) = (if b = 0 then NaN else if 0 < b then x else np_neg x)"
| "np_times x y = (if x = y then PInf else NInf)"

fun np_divide :: "npfloat \<Rightarrow> npfloat \<Rightarrow> npfloat" where
  "np_divide (Fin a) (Fin b) =
     (if b \<noteq> 0 then Fin (a / b)
      else if a = 0 then NaN else if 0 < a then PInf else NInf)"
| "np_divide NaN y = NaN"
| "np_divide x NaN = NaN"
| "np_divide (Fin a) y = Fin 0"
| "np_divide x (Fin b) = (if 0 \<le> b then x else np_neg x)"
| "np_divide x y = NaN"

fun np_sqrt :: "npfloat \<Rightarrow> npfloat" where
  "np_sqrt (Fin a) = (if a < 0 then NaN else Fin (sqrt a))"
| "np_sqrt PInf = PInf"
| "np_sqrt NInf = NaN"
| "np_sqrt NaN = NaN"

fun np_sin :: "npfloat \<Rightarrow> npfloat" where
  "np_sin (Fin a) = Fin (sin a)"
| "np_sin x = NaN"

fun np_cos :: "npfloat \<Rightarrow> npfloat" where
  "np_cos (Fin a) = Fin (cos a)"
| "np_cos x = NaN"

fun np_arcsin :: "npfloat \<Rightarrow> npfloat" where
  "np_arcsin (Fin a) = (if - 1 \<le> a \<and> a \<le> 1 then Fin (arcsin a) else NaN)"
| "np_arcsin x = NaN"

definition np_power :: "real \<Rightarrow> real \<Rightarrow> npfloat" where
  \<comment> \<open>The float power \<^verbatim>\<open>a**p\<close> as the module uses it: a positive, non-integer exponent
     (\<^verbatim>\<open>1.5\<close> and \<^verbatim>\<open>0.5\<close>), for which a negative base gives NaN.\<close>
  "np_power a p = (if a < 0 then NaN else Fin (a powr p))"

definition arctan2 :: "real \<Rightarrow> real \<Rightarrow> real" where
  \<comment> \<open>\<^verbatim>\<open>np.arctan2(y, x)\<close> on finite arguments: the angle of the point \<open>(x, y)\<close>.\<close>
  "arctan2 y x =
     (if 0 < x then arctan (y / x)
      else if x < 0 then (if 0 \<le> y then arctan (y / x) + pi else arctan (y / x) - pi)
      else if 0 < y then pi / 2
      else if y < 0 then - (pi / 2)
      else 0)"

text \<open>
  With built-in Python numbers in place of NumPy values, the operator \<^verbatim>\<open>/\<close> is Python's
  own: a zero divisor raises \<^verbatim>\<open>ZeroDivisionError\<close>.
\<close>

datatype py_error = ZeroDivisionError

definition truediv :: "real \<Rightarrow> real \<Rightarrow> py_error + real" where
  "truediv a b = (if b = 0 then Inl ZeroDivisionError else Inr (a / b))"

section \<open>Dispersion relation\<close>

text \<open>
  \<^verbatim>\<open>omega(N, k, m, l=0., f=0.)\<close>, on NumPy values (the docstring's \<^verbatim>\<open>ndarray\<close>
  parameters; an array is handled element by element).  A default argument is passed
  explicitly.
\<close>

definition omega :: "real \<Rightarrow> real \<Rightarrow> real \<Rightarrow> real \<Rightarrow> real \<Rightarrow> npfloat" where
  "omega N k m l f =
     (let N2 = N\<^sup>2; k2 = k\<^sup>2; m2 = m\<^sup>2; l2 = l\<^sup>2; f2 = f\<^sup>2
      in np_sqrt (np_divide (Fin (f2 * m2 + N2 * (k2 + l2))) (Fin (k2 + l2 + m2))))"

text \<open>The same function body when every argument is a built-in Python number.\<close>

definition omega_builtin ::
  "real \<Rightarrow> real \<Rightarrow> real \<Rightarrow> real \<Rightarrow> real \<Rightarrow> py_error + npfloat" where
  "omega_builtin N k m l f =
     (let N2 = N\<^sup>2; k2 = k\<^sup>2; m2 = m\<^sup>2; l2 = l\<^sup>2; f2 = f\<^sup>2
      in case truediv (f2 * m2 + N2 * (k2 + l2)) (k2 + l2 + m2) of
           Inl e \<Rightarrow> Inl e
         | Inr q \<Rightarrow> Inr (np_sqrt (Fin q)))"

section \<open>Complex values and the two kinds of operands\<close>

text \<open>
  A complex value is a pair of floating-point components.  Sum, difference and product
  are the component formulas that NumPy and Python both compute; a finite complex number
  \<open>z\<close> is the pair \<open>cfin z\<close>.
\<close>

fun np_plus :: "npfloat \<Rightarrow> npfloat \<Rightarrow> npfloat" where
  "np_plus (Fin a) (Fin b) = Fin (a + b)"
| "np_plus NaN y = NaN"
| "np_plus x NaN = NaN"
| "np_plus (Fin a) y = y"
| "np_plus x (Fin b) = x"
| "np_plus x y = (if x = y then x else NaN)"

definition np_minus :: "npfloat \<Rightarrow> npfloat \<Rightarrow> npfloat" where
  "np_minus x y = np_plus x (np_neg y)"

type_synonym npcomplex = "npfloat \<times> npfloat"

definition cfin :: "complex \<Rightarrow> npcomplex" where
  "cfin z = (Fin (Re z), Fin (Im z))"

definition np_real :: "npcomplex \<Rightarrow> npfloat" where
  "np_real z = fst z"

definition nc_neg :: "npcomplex \<Rightarrow> npcomplex" where
  "nc_neg z = (np_neg (fst z), np_neg (snd z))"

definition nc_times :: "npcomplex \<Rightarrow> npcomplex \<Rightarrow> npcomplex" where
  "nc_times z w =
     (np_minus (np_times (fst z) (fst w)) (np_times (snd z) (snd w)),
      np_plus (np_times (fst z) (snd w)) (np_times (snd z) (fst w)))"

definition nc_divide :: "npcomplex \<Rightarrow> real \<Rightarrow> npcomplex" where
  \<comment> \<open>A complex value divided by a real one.  On the values the module can reach (a finite
     numerator, or one with two NaN components) NumPy's quotient is the quotient of each
     component: \<open>z / 0\<close> has the components \<open>Re z / 0\<close> and \<open>Im z / 0\<close>.\<close>
  "nc_divide z d = (np_divide (fst z) (Fin d), np_divide (snd z) (Fin d))"

text \<open>
  The functions below never convert their arguments, so what the operator \<^verbatim>\<open>/\<close> does
  with a zero divisor depends on what the caller passes: on built-in Python numbers it
  raises \<^verbatim>\<open>ZeroDivisionError\<close>, on \<^verbatim>\<open>ndarray\<close> operands it returns infinities and NaN.
  Each function takes the kind of its operands as its first argument.
\<close>

datatype operands = Builtin | Ndarray

definition r_divide :: "operands \<Rightarrow> real \<Rightarrow> real \<Rightarrow> py_error + npfloat" where
  "r_divide kind a d =
     (if kind = Builtin \<and> d = 0 then Inl ZeroDivisionError
      else Inr (np_divide (Fin a) (Fin d)))"

definition c_divide :: "operands \<Rightarrow> npcomplex \<Rightarrow> real \<Rightarrow> py_error + npcomplex" where
  "c_divide kind z d =
     (if kind = Builtin \<and> d = 0 then Inl ZeroDivisionError
      else Inr (nc_divide z d))"

section \<open>Amplitude ratios\<close>

definition U_0 ::
  "operands \<Rightarrow> complex \<Rightarrow> real \<Rightarrow> real \<Rightarrow> real \<Rightarrow> real \<Rightarrow> py_error + npcomplex" where
  "U_0 kind phi_0 k l om f =
     (case c_divide kind
             (cfin (complex_of_real (k * om) + \<i> * complex_of_real l * complex_of_real f))
             (om\<^sup>2 - f\<^sup>2) of
        Inl e \<Rightarrow> Inl e
      | Inr q \<Rightarrow> Inr (nc_times q (cfin phi_0)))"

definition V_0 ::
  "operands \<Rightarrow> complex \<Rightarrow> real \<Rightarrow> real \<Rightarrow> real \<Rightarrow> real \<Rightarrow> py_error + npcomplex" where
  "V_0 kind phi_0 k l om f =
     (case c_divide kind
             (cfin (complex_of_real (l * om) - \<i> * complex_of_real k * complex_of_real f))
             (om\<^sup>2 - f\<^sup>2) of
        Inl e \<Rightarrow> Inl e
      | Inr q \<Rightarrow> Inr (nc_times q (cfin phi_0)))"

definition W_0 ::
  "operands \<Rightarrow> complex \<Rightarrow> real \<Rightarrow> real \<Rightarrow> real \<Rightarrow> py_error + npcomplex" where
  \<comment> \<open>The real quotient is promoted to a complex value before it is multiplied.\<close>
  "W_0 kind phi_0 m om N =
     (case r_divide kind (- om * m) (N\<^sup>2 - om\<^sup>2) of
        Inl e \<Rightarrow> Inl e
      | Inr q \<Rightarrow> Inr (nc_times (q, Fin 0) (cfin phi_0)))"

definition B_0 ::
  "operands \<Rightarrow> complex \<Rightarrow> real \<Rightarrow> real \<Rightarrow> real \<Rightarrow> py_error + npcomplex" where
  "B_0 kind phi_0 m om N =
     (case c_divide kind (cfin (\<i> * complex_of_real m * complex_of_real (N\<^sup>2)))
             (N\<^sup>2 - om\<^sup>2) of
        Inl e \<Rightarrow> Inl e
      | Inr q \<Rightarrow> Inr (nc_times q (cfin phi_0)))"


definition RHO_0 ::
  "operands \<Rightarrow> complex \<Rightarrow> real \<Rightarrow> real \<Rightarrow> real \<Rightarrow> real \<Rightarrow> real \<Rightarrow>
   py_error + npcomplex" where
  "RHO_0 kind phi_0 m om N g rho_0 =
     (case B_0 kind phi_0 m om N of
        Inl e \<Rightarrow> Inl e
      | Inr b0 \<Rightarrow> c_divide kind (nc_times (nc_neg b0) (Fin rho_0, Fin 0)) g)"

section \<open>Phase and field evaluation\<close>

definition wave_phase ::
  "real \<Rightarrow> real \<Rightarrow> real \<Rightarrow> real \<Rightarrow> real \<Rightarrow> real \<Rightarrow> real \<Rightarrow> real \<Rightarrow>
   real \<Rightarrow> real \<Rightarrow> real \<Rightarrow> real \<Rightarrow> complex" where
  "wave_phase x y z t k l m om U V W phase_0 =
     \<i> * complex_of_real (k * x + l * y + m * z - (om + k * U + l * V + m * W) * t + phase_0)"

definition phi ::
  "real \<Rightarrow> real \<Rightarrow> real \<Rightarrow> real \<Rightarrow> complex \<Rightarrow> real \<Rightarrow> real \<Rightarrow> real \<Rightarrow> real \<Rightarrow>
   real \<Rightarrow> real \<Rightarrow> real \<Rightarrow> real \<Rightarrow> real" where
  "phi x y z t phi_0 k l m om U V W phase_0 =
     (let phase = wave_phase x y z t k l m om U V W phase_0
      in Re (phi_0 * exp phase))"

text \<open>
  The other evaluators first compute their amplitude, which may raise, and then return
  the real part of the amplitude times the exponential of the phase.
\<close>

definition carrier :: "py_error + npcomplex \<Rightarrow> complex \<Rightarrow> py_error + npfloat" where
  \<comment> \<open>\<^verbatim>\<open>np.real(amplitude*np.exp(phase))\<close>, for an amplitude that was computed or
     raised.\<close>
  "carrier amplitude phase =
     (case amplitude of
        Inl e \<Rightarrow> Inl e
      | Inr a \<Rightarrow> Inr (np_real (nc_times a (cfin (exp phase)))))"

definition u ::
  "operands \<Rightarrow> real \<Rightarrow> real \<Rightarrow> real \<Rightarrow> real \<Rightarrow> complex \<Rightarrow> real \<Rightarrow> real \<Rightarrow> real \<Rightarrow>
   real \<Rightarrow> real \<Rightarrow> real \<Rightarrow> real \<Rightarrow> real \<Rightarrow> real \<Rightarrow> py_error + npfloat" where
  "u kind x y z t phi_0 k l m om f U V W phase_0 =
     (let amplitude = U_0 kind phi_0 k l om f;
          phase = wave_phase x y z t k l m om U V W phase_0
      in carrier amplitude phase)"

definition v ::
  "operands \<Rightarrow> real \<Rightarrow> real \<Rightarrow> real \<Rightarrow> real \<Rightarrow> complex \<Rightarrow> real \<Rightarrow> real \<Rightarrow> real \<Rightarrow>
   real \<Rightarrow> real \<Rightarrow> real \<Rightarrow> real \<Rightarrow> real \<Rightarrow> real \<Rightarrow> py_error + npfloat" where
  "v kind x y z t phi_0 k l m om f U V W phase_0 =
     (let amplitude = V_0 kind phi_0 k l om f;
          phase = wave_phase x y z t k l m om U V W phase_0
      in carrier amplitude phase)"

definition w ::
  "operands \<Rightarrow> real \<Rightarrow> real \<Rightarrow> real \<Rightarrow> real \<Rightarrow> complex \<Rightarrow> real \<Rightarrow> real \<Rightarrow> real \<Rightarrow>
   real \<Rightarrow> real \<Rightarrow> real \<Rightarrow> real \<Rightarrow> real \<Rightarrow> real \<Rightarrow> py_error + npfloat" where
  "w kind x y z t phi_0 k l m om N U V W phase_0 =
     (let amplitude = W_0 kind phi_0 m om N;
          phase = wave_phase x y z t k l m om U V W phase_0
      in carrier amplitude phase)"

definition b ::
  "operands \<Rightarrow> real \<Rightarrow> real \<Rightarrow> real \<Rightarrow> real \<Rightarrow> complex \<Rightarrow> real \<Rightarrow> real \<Rightarrow> real \<Rightarrow>
   real \<Rightarrow> real \<Rightarrow> real \<Rightarrow> real \<Rightarrow> real \<Rightarrow> real \<Rightarrow> py_error + npfloat" where
  "b kind x y z t phi_0 k l m om N U V W phase_0 =
     (let amplitude = B_0 kind phi_0 m om N;
          phase = wave_phase x y z t k l m om U V W phase_0
      in carrier amplitude phase)"

definition rho ::
  "operands \<Rightarrow> real \<Rightarrow> real \<Rightarrow> real \<Rightarrow> real \<Rightarrow> complex \<Rightarrow> real \<Rightarrow> real \<Rightarrow> real \<Rightarrow>
   real \<Rightarrow> real \<Rightarrow> real \<Rightarrow> real \<Rightarrow> real \<Rightarrow> real \<Rightarrow> real \<Rightarrow> real \<Rightarrow>
   py_error + npfloat" where
  "rho kind x y z t phi_0 k l m om N U V W phase_0 g rho_0 =
     (let amplitude = RHO_0 kind phi_0 m om N g rho_0;
          phase = wave_phase x y z t k l m om U V W phase_0
      in carrier amplitude phase)"


section \<open>Evaluation over a position stack\<close>

text \<open>
  A position stack of shape \<open>(P, 3)\<close> is a list of \<open>P\<close> triples; \<^verbatim>\<open>r[..., 0]\<close> is the
  list of first components.  The three amplitudes are computed first, each of which may
  raise.  The arithmetic on the three coordinate arrays is NumPy's element-wise one,
  \<^verbatim>\<open>np.vstack\<close> puts the three result arrays under each other and \<^verbatim>\<open>.T\<close> transposes
  the stack.
\<close>

definition wave_vel ::
  "operands \<Rightarrow> (real \<times> real \<times> real) list \<Rightarrow> real \<Rightarrow> complex \<Rightarrow> real \<Rightarrow> real \<Rightarrow> real \<Rightarrow>
   real \<Rightarrow> real \<Rightarrow> real \<Rightarrow> real \<Rightarrow> real \<Rightarrow> real \<Rightarrow> real \<Rightarrow>
   py_error + npfloat list list" where
  "wave_vel kind r t phi_0 N f k l m om U V W phase_0 =
     (let x = map (\<lambda>(x, y, z). x) r;
          y = map (\<lambda>(x, y, z). y) r;
          z = map (\<lambda>(x, y, z). z) r
      in case U_0 kind phi_0 k l om f of
           Inl e \<Rightarrow> Inl e
         | Inr u_amp \<Rightarrow>
        (case V_0 kind phi_0 k l om f of
           Inl e \<Rightarrow> Inl e
         | Inr v_amp \<Rightarrow>
        (case W_0 kind phi_0 m om N of
           Inl e \<Rightarrow> Inl e
         | Inr w_amp \<Rightarrow>
        (let phase = map (\<lambda>(x, y, z). wave_phase x y z t k l m om U V W phase_0)
                       (zip x (zip y z));
             u = map (\<lambda>ph. np_real (nc_times u_amp (cfin (exp ph)))) phase;
             v = map (\<lambda>ph. np_real (nc_times v_amp (cfin (exp ph)))) phase;
             w = map (\<lambda>ph. np_real (nc_times w_amp (cfin (exp ph)))) phase
         in Inr (transpose [u, v, w])))))"

section \<open>Group velocity and geometry\<close>

definition cgz :: "real \<Rightarrow> real \<Rightarrow> real \<Rightarrow> real \<Rightarrow> real \<Rightarrow> npfloat" where
  "cgz k m N l f =
     (let num = - m * (N\<^sup>2 - f\<^sup>2) * (k\<^sup>2 + l\<^sup>2);
          den = np_times (np_power (k\<^sup>2 + l\<^sup>2 + m\<^sup>2) 1.5)
                  (np_power (f\<^sup>2 * m\<^sup>2 + N\<^sup>2 * (k\<^sup>2 + l\<^sup>2)) 0.5)
      in np_divide (Fin num) den)"

definition phip :: "real \<Rightarrow> real \<Rightarrow> real \<Rightarrow> npfloat" where
  "phip k m l = np_arcsin (np_sqrt (np_divide (Fin (m\<^sup>2)) (Fin (k\<^sup>2 + l\<^sup>2 + m\<^sup>2))))"

definition lambdap :: "real \<Rightarrow> real \<Rightarrow> npfloat" where
  "lambdap k l = Fin (arctan2 l k)"

definition cgvec :: "real \<Rightarrow> real \<Rightarrow> real \<Rightarrow> real \<Rightarrow> real \<Rightarrow> npfloat list" where
  "cgvec k l m N f =
     (let om = omega N k m l f;
          phi = phip k m l;
          lamb = lambdap k l;
          mag = np_divide
                  (np_times (np_times (np_cos phi) (np_sin phi)) (Fin (N\<^sup>2 - f\<^sup>2)))
                  (np_times om (np_sqrt (Fin (k\<^sup>2 + l\<^sup>2 + m\<^sup>2))));
          dir = [np_times (np_sin phi) (np_cos lamb),
                 np_times (np_sin phi) (np_sin lamb),
                 np_neg (np_cos phi)]
      in map (np_times mag) dir)"

section \<open>Auxiliary facts\<close>

lemma wavevector_sq_pos:
  fixes k l m :: real
  assumes "k \<noteq> 0 \<or> l \<noteq> 0 \<or> m \<noteq> 0"
  shows "0 < k\<^sup>2 + l\<^sup>2 + m\<^sup>2"
proof -
  have "0 < k\<^sup>2 \<or> 0 < l\<^sup>2 \<or> 0 < m\<^sup>2"
    using assms by simp
  moreover have "0 \<le> k\<^sup>2" "0 \<le> l\<^sup>2" "0 \<le> m\<^sup>2"
    by simp_all
  ultimately show ?thesis
    by linarith
qed

lemma radicand_nonneg:
  fixes N k m l f :: real
  shows "0 \<le> (f\<^sup>2 * m\<^sup>2 + N\<^sup>2 * (k\<^sup>2 + l\<^sup>2)) / (k\<^sup>2 + l\<^sup>2 + m\<^sup>2)"
  by (intro divide_nonneg_nonneg add_nonneg_nonneg mult_nonneg_nonneg zero_le_power2)

lemma omega_regular:
  assumes "k \<noteq> 0 \<or> l \<noteq> 0 \<or> m \<noteq> 0"
  shows "omega N k m l f =
    Fin (sqrt ((f\<^sup>2 * m\<^sup>2 + N\<^sup>2 * (k\<^sup>2 + l\<^sup>2)) / (k\<^sup>2 + l\<^sup>2 + m\<^sup>2)))"
proof -
  have "k\<^sup>2 + l\<^sup>2 + m\<^sup>2 \<noteq> 0"
    using wavevector_sq_pos [OF assms] by simp
  moreover have "\<not> (f\<^sup>2 * m\<^sup>2 + N\<^sup>2 * (k\<^sup>2 + l\<^sup>2)) / (k\<^sup>2 + l\<^sup>2 + m\<^sup>2) < 0"
    using radicand_nonneg [of f m N k l] by (simp only: not_less)
  ultimately show ?thesis
    by (simp add: omega_def Let_def)
qed

lemma omega_singular: "omega N 0 0 0 f = NaN"
  by (simp add: omega_def)

text \<open>
  Built-in numbers and NumPy values give the same frequency wherever the wavevector is
  not zero; they differ only in what the division \<open>0/0\<close> does.
\<close>

lemma omega_builtin_regular:
  assumes "k \<noteq> 0 \<or> l \<noteq> 0 \<or> m \<noteq> 0"
  shows "omega_builtin N k m l f = Inr (omega N k m l f)"
proof -
  have "k\<^sup>2 + l\<^sup>2 + m\<^sup>2 \<noteq> 0"
    using wavevector_sq_pos [OF assms] by simp
  then show ?thesis
    by (simp add: omega_builtin_def omega_def truediv_def Let_def)
qed

lemma omega_builtin_singular: "omega_builtin N 0 0 0 f = Inl ZeroDivisionError"
  by (simp add: omega_builtin_def truediv_def)

lemma omega_nonrotating_abs:
  assumes "k \<noteq> 0 \<or> m \<noteq> 0"
  shows "omega N k m 0 0 = Fin (\<bar>N\<bar> * \<bar>k\<bar> / sqrt (k\<^sup>2 + m\<^sup>2))"
proof -
  have "omega N k m 0 0 = Fin (sqrt ((N\<^sup>2 * k\<^sup>2) / (k\<^sup>2 + m\<^sup>2)))"
    using omega_regular [of k 0 m N 0] assms by auto
  also have "sqrt ((N\<^sup>2 * k\<^sup>2) / (k\<^sup>2 + m\<^sup>2)) = \<bar>N\<bar> * \<bar>k\<bar> / sqrt (k\<^sup>2 + m\<^sup>2)"
    by (simp add: real_sqrt_divide real_sqrt_mult)
  finally show ?thesis .
qed

section \<open>The dispersion relation\<close>

text \<open>
  Claim C1, as amended.  For all real \<open>N\<close>, \<open>k\<close>, \<open>m\<close>, \<open>l\<close>, \<open>f\<close> with \<open>(k, l, m)\<close> not all zero,
  \<open>omega\<close> returns the square root of \<open>(f\<^sup>2 m\<^sup>2 + N\<^sup>2 (k\<^sup>2 + l\<^sup>2)) / (k\<^sup>2 + l\<^sup>2 + m\<^sup>2)\<close>, the
  nonnegative root, for NumPy values and for built-in Python numbers alike.
\<close>

theorem omega_dispersion:
  assumes "k \<noteq> 0 \<or> l \<noteq> 0 \<or> m \<noteq> 0"
  shows "omega N k m l f =
      Fin (sqrt ((f\<^sup>2 * m\<^sup>2 + N\<^sup>2 * (k\<^sup>2 + l\<^sup>2)) / (k\<^sup>2 + l\<^sup>2 + m\<^sup>2)))
    \<and> omega_builtin N k m l f =
      Inr (Fin (sqrt ((f\<^sup>2 * m\<^sup>2 + N\<^sup>2 * (k\<^sup>2 + l\<^sup>2)) / (k\<^sup>2 + l\<^sup>2 + m\<^sup>2))))
    \<and> 0 \<le> sqrt ((f\<^sup>2 * m\<^sup>2 + N\<^sup>2 * (k\<^sup>2 + l\<^sup>2)) / (k\<^sup>2 + l\<^sup>2 + m\<^sup>2))"
proof (intro conjI)
  show np: "omega N k m l f =
      Fin (sqrt ((f\<^sup>2 * m\<^sup>2 + N\<^sup>2 * (k\<^sup>2 + l\<^sup>2)) / (k\<^sup>2 + l\<^sup>2 + m\<^sup>2)))"
    using assms by (rule omega_regular)
  show "omega_builtin N k m l f =
      Inr (Fin (sqrt ((f\<^sup>2 * m\<^sup>2 + N\<^sup>2 * (k\<^sup>2 + l\<^sup>2)) / (k\<^sup>2 + l\<^sup>2 + m\<^sup>2))))"
    using omega_builtin_regular [OF assms] np by simp
  show "0 \<le> sqrt ((f\<^sup>2 * m\<^sup>2 + N\<^sup>2 * (k\<^sup>2 + l\<^sup>2)) / (k\<^sup>2 + l\<^sup>2 + m\<^sup>2))"
    using radicand_nonneg [of f m N k l] by simp
qed

theorem omega_dispersion_witness:
  "omega 2 1 0 0 0 = Fin 2 \<and> omega_builtin 2 1 0 0 0 = Inr (Fin 2)
   \<and> omega 5 0 1 0 3 = Fin 3 \<and> omega_builtin 5 0 1 0 3 = Inr (Fin 3)"
proof -
  have "sqrt (9::real) = 3"
    by (rule real_sqrt_unique) simp_all
  then show ?thesis
    using omega_dispersion [of 1 0 0 2 0] omega_dispersion [of 0 0 1 5 3] by simp
qed

text \<open>
  At the zero wavevector the function does not return the root of a real number: the
  quotient is \<open>0/0\<close>, which is NaN for NumPy values and raises \<^verbatim>\<open>ZeroDivisionError\<close> for
  built-in numbers.
\<close>

theorem omega_zero_wavevector:
  "omega 2 0 0 0 3 = NaN
   \<and> omega 2 0 0 0 3 \<noteq> Fin (sqrt ((3\<^sup>2 * 0\<^sup>2 + 2\<^sup>2 * (0\<^sup>2 + 0\<^sup>2)) / (0\<^sup>2 + 0\<^sup>2 + 0\<^sup>2)))
   \<and> omega_builtin 2 0 0 0 3 = Inl ZeroDivisionError"
  by (simp add: omega_singular omega_builtin_singular)

text \<open>
  Claim C2, as amended.  Without rotation (\<open>f = 0\<close>) and with \<open>l = 0\<close>, for \<open>(k, m)\<close> not
  both zero, \<open>omega N k m\<close> is \<open>\<bar>N\<bar> \<bar>k\<bar> / sqrt (k\<^sup>2 + m\<^sup>2)\<close>, which is \<open>N \<bar>k\<bar> / sqrt (k\<^sup>2 + m\<^sup>2)\<close>
  for a buoyancy frequency \<open>N \<ge> 0\<close>.  In the scenario \<open>N = 0.01\<close>, \<open>k = 0.001\<close>, \<open>m = -0.002\<close>
  the result is \<open>sqrt (N\<^sup>2 k\<^sup>2 / (k\<^sup>2 + m\<^sup>2))\<close>.
\<close>

theorem omega_nonrotating:
  "(k \<noteq> 0 \<or> m \<noteq> 0 \<longrightarrow>
      omega N k m 0 0 = Fin (\<bar>N\<bar> * \<bar>k\<bar> / sqrt (k\<^sup>2 + m\<^sup>2))
      \<and> (0 \<le> N \<longrightarrow> omega N k m 0 0 = Fin (N * \<bar>k\<bar> / sqrt (k\<^sup>2 + m\<^sup>2))))
   \<and> omega 0.01 0.001 (- 0.002) 0 0 =
       Fin (sqrt ((0.01)\<^sup>2 * (0.001)\<^sup>2 / ((0.001)\<^sup>2 + (- 0.002)\<^sup>2)))"
proof (intro conjI impI)
  assume km: "k \<noteq> 0 \<or> m \<noteq> 0"
  show "omega N k m 0 0 = Fin (\<bar>N\<bar> * \<bar>k\<bar> / sqrt (k\<^sup>2 + m\<^sup>2))"
    using km by (rule omega_nonrotating_abs)
  assume "0 \<le> N"
  then show "omega N k m 0 0 = Fin (N * \<bar>k\<bar> / sqrt (k\<^sup>2 + m\<^sup>2))"
    using omega_nonrotating_abs [OF km, of N] by simp
next
  have "(0.001::real) \<noteq> 0 \<or> (0::real) \<noteq> 0 \<or> (- 0.002::real) \<noteq> 0"
    by simp
  from omega_regular [OF this, of "0.01" 0]
  show "omega 0.01 0.001 (- 0.002) 0 0 =
       Fin (sqrt ((0.01)\<^sup>2 * (0.001)\<^sup>2 / ((0.001)\<^sup>2 + (- 0.002)\<^sup>2)))"
    by simp
qed

theorem omega_nonrotating_witness:
  "omega 3 4 3 0 0 = Fin (12 / 5)"
proof -
  have "sqrt ((4::real)\<^sup>2 + 3\<^sup>2) = 5"
    by (rule real_sqrt_unique) simp_all
  then show ?thesis
    using omega_nonrotating [of 4 3 3] by simp
qed

text \<open>
  The claim as the specification states it, with \<open>N\<close> in place of \<open>\<bar>N\<bar>\<close>, fails for a
  negative \<open>N\<close>: at \<open>N = -1\<close>, \<open>k = 1\<close>, \<open>m = 0\<close> the function returns \<open>1\<close>, not \<open>-1\<close>.
\<close>

theorem omega_nonrotating_negative_N:
  "omega (- 1) 1 0 0 0 \<noteq> Fin ((- 1) * \<bar>1\<bar> / sqrt (1\<^sup>2 + 0\<^sup>2))"
  using omega_nonrotating_abs [of 1 0 "- 1"] by simp

text \<open>
  Claim C3.  For all real \<open>N\<close>, \<open>k\<close>, \<open>m\<close>, \<open>l\<close>, \<open>f\<close> with \<open>(k, l, m)\<close> not all zero, \<open>omega\<close>
  returns a nonnegative real number.
\<close>

theorem omega_nonneg:
  assumes "k \<noteq> 0 \<or> l \<noteq> 0 \<or> m \<noteq> 0"
  shows "\<exists>r. omega N k m l f = Fin r \<and> 0 \<le> r"
  using omega_regular [OF assms] radicand_nonneg [of f m N k l] by simp

theorem omega_nonneg_witness:
  "\<exists>r. omega 2 1 0 0 0 = Fin r \<and> 0 \<le> r"
  using omega_nonneg [of 1 0 0 2 0] by simp

text \<open>
  Claim C8, as amended.  At the singular input \<open>N = 1\<close>, \<open>k = l = m = f = 0\<close>, given as
  NumPy values, \<open>omega\<close> computes \<open>0/0\<close> and returns NaN: the failure is data handed to
  the caller.
\<close>

theorem omega_singular_nan:
  "omega 1 0 0 0 0 = NaN"
  by (simp add: omega_def)

text \<open>
  Given the same input as built-in Python numbers, the division in the body of \<open>omega\<close>
  raises \<^verbatim>\<open>ZeroDivisionError\<close> before the square root is taken, and nothing is returned.
\<close>

theorem omega_builtin_raises:
  "omega_builtin 1 0 0 0 0 = Inl ZeroDivisionError \<and> omega_builtin 1 0 0 0 0 \<noteq> Inr NaN"
  by (simp add: omega_builtin_def truediv_def)

section \<open>Finite complex values\<close>

lemma nc_times_cfin: "nc_times (cfin a) (cfin c) = cfin (a * c)"
  by (simp add: nc_times_def cfin_def np_minus_def)

lemma nc_times_real_cfin: "nc_times (Fin q, Fin 0) (cfin c) = cfin (complex_of_real q * c)"
  by (simp add: nc_times_def cfin_def np_minus_def)

lemma nc_times_cfin_real: "nc_times (cfin a) (Fin q, Fin 0) = cfin (a * complex_of_real q)"
  by (simp add: nc_times_def cfin_def np_minus_def)

lemma nc_neg_cfin: "nc_neg (cfin a) = cfin (- a)"
  by (simp add: nc_neg_def cfin_def)

lemma nc_divide_cfin:
  assumes "d \<noteq> 0"
  shows "nc_divide (cfin a) d = cfin (a / complex_of_real d)"
  using assms by (simp add: nc_divide_def cfin_def)

lemma c_divide_cfin:
  assumes "d \<noteq> 0"
  shows "c_divide kind (cfin a) d = Inr (cfin (a / complex_of_real d))"
  using assms by (simp add: c_divide_def nc_divide_cfin)

lemma r_divide_fin:
  assumes "d \<noteq> 0"
  shows "r_divide kind a d = Inr (Fin (a / d))"
  using assms by (simp add: r_divide_def)

lemma c_divide_builtin_zero: "c_divide Builtin z 0 = Inl ZeroDivisionError"
  by (simp add: c_divide_def)

lemma r_divide_builtin_zero: "r_divide Builtin a 0 = Inl ZeroDivisionError"
  by (simp add: r_divide_def)

lemma carrier_cfin:
  "carrier (Inr (cfin a)) ph = Inr (Fin (Re (a * exp ph)))"
  by (simp add: carrier_def np_real_def nc_times_cfin) (simp add: cfin_def)

lemma carrier_raise: "carrier (Inl e) ph = Inl e"
  by (simp add: carrier_def)

section \<open>Amplitudes away from their singular frequencies\<close>

lemma U_0_regular:
  assumes "om\<^sup>2 \<noteq> f\<^sup>2"
  shows "U_0 kind phi_0 k l om f =
    Inr (cfin ((complex_of_real (k * om) + \<i> * complex_of_real l * complex_of_real f)
               / complex_of_real (om\<^sup>2 - f\<^sup>2) * phi_0))"
proof -
  have nz: "om\<^sup>2 - f\<^sup>2 \<noteq> 0"
    using assms by simp
  show ?thesis
    unfolding U_0_def by (simp only: c_divide_cfin [OF nz] sum.case nc_times_cfin)
qed

lemma V_0_regular:
  assumes "om\<^sup>2 \<noteq> f\<^sup>2"
  shows "V_0 kind phi_0 k l om f =
    Inr (cfin ((complex_of_real (l * om) - \<i> * complex_of_real k * complex_of_real f)
               / complex_of_real (om\<^sup>2 - f\<^sup>2) * phi_0))"
proof -
  have nz: "om\<^sup>2 - f\<^sup>2 \<noteq> 0"
    using assms by simp
  show ?thesis
    unfolding V_0_def by (simp only: c_divide_cfin [OF nz] sum.case nc_times_cfin)
qed

lemma W_0_regular:
  assumes "N\<^sup>2 \<noteq> om\<^sup>2"
  shows "W_0 kind phi_0 m om N =
    Inr (cfin (complex_of_real (- om * m / (N\<^sup>2 - om\<^sup>2)) * phi_0))"
proof -
  have nz: "N\<^sup>2 - om\<^sup>2 \<noteq> 0"
    using assms by simp
  show ?thesis
    unfolding W_0_def by (simp only: r_divide_fin [OF nz] sum.case nc_times_real_cfin)
qed

lemma B_0_regular:
  assumes "N\<^sup>2 \<noteq> om\<^sup>2"
  shows "B_0 kind phi_0 m om N =
    Inr (cfin (\<i> * complex_of_real m * complex_of_real (N\<^sup>2)
               / complex_of_real (N\<^sup>2 - om\<^sup>2) * phi_0))"
proof -
  have nz: "N\<^sup>2 - om\<^sup>2 \<noteq> 0"
    using assms by simp
  show ?thesis
    unfolding B_0_def by (simp only: c_divide_cfin [OF nz] sum.case nc_times_cfin)
qed


lemma RHO_0_of_B_0:
  assumes "B_0 kind phi_0 m om N = Inr (cfin b0)" and "g \<noteq> 0"
  shows "RHO_0 kind phi_0 m om N g rho_0 =
    Inr (cfin (- b0 * complex_of_real rho_0 / complex_of_real g))"
  unfolding RHO_0_def assms(1)
  by (simp only: sum.case nc_neg_cfin nc_times_cfin_real c_divide_cfin [OF assms(2)])

section \<open>Amplitudes without rotation\<close>

text \<open>
  Claim C4.  For every complex \<open>phi_0\<close> and real \<open>k\<close>, \<open>l\<close>, \<open>om\<close> with \<open>f = 0\<close> and \<open>om\<close>
  nonzero, \<open>U_0\<close> is \<open>(k / om) phi_0\<close> and \<open>V_0\<close> is \<open>(l / om) phi_0\<close>, for built-in and for
  \<^verbatim>\<open>ndarray\<close> operands: the Coriolis term vanishes.
\<close>

theorem amplitudes_without_rotation:
  assumes "om \<noteq> 0"
  shows "U_0 kind phi_0 k l om 0 = Inr (cfin (complex_of_real (k / om) * phi_0))
       \<and> V_0 kind phi_0 k l om 0 = Inr (cfin (complex_of_real (l / om) * phi_0))"
proof -
  have sq: "om\<^sup>2 \<noteq> 0\<^sup>2"
    using assms by simp
  have ku: "(complex_of_real (k * om) + \<i> * complex_of_real l * complex_of_real 0)
        / complex_of_real (om\<^sup>2 - 0\<^sup>2) * phi_0 = complex_of_real (k / om) * phi_0"
    and lu: "(complex_of_real (l * om) - \<i> * complex_of_real k * complex_of_real 0)
        / complex_of_real (om\<^sup>2 - 0\<^sup>2) * phi_0 = complex_of_real (l / om) * phi_0"
    using assms by (simp_all add: power2_eq_square)
  have U: "U_0 kind phi_0 k l om 0 = Inr (cfin (complex_of_real (k / om) * phi_0))"
    using U_0_regular [OF sq, of kind phi_0 k l] unfolding ku .
  have V: "V_0 kind phi_0 k l om 0 = Inr (cfin (complex_of_real (l / om) * phi_0))"
    using V_0_regular [OF sq, of kind phi_0 k l] unfolding lu .
  from U V show ?thesis ..
qed

theorem amplitudes_without_rotation_witness:
  "U_0 Builtin (Complex 1 2) 6 4 2 0 = Inr (Fin 3, Fin 6)
   \<and> V_0 Builtin (Complex 1 2) 6 4 2 0 = Inr (Fin 2, Fin 4)
   \<and> U_0 Ndarray (Complex 1 2) 6 4 2 0 = Inr (Fin 3, Fin 6)
   \<and> V_0 Ndarray (Complex 1 2) 6 4 2 0 = Inr (Fin 2, Fin 4)"
  using amplitudes_without_rotation [of 2 Builtin "Complex 1 2" 6 4]
    amplitudes_without_rotation [of 2 Ndarray "Complex 1 2" 6 4]
  by (simp add: cfin_def)

section \<open>The carrier wave\<close>







section \<open>Density and buoyancy\<close>

lemma Re_scaled:
  "Re (- b0 * complex_of_real r / complex_of_real g * e) = - Re (b0 * e) * r / g"
proof -
  define R where "R = Re (b0 * e)"
  have "- b0 * complex_of_real r / complex_of_real g * e
      = complex_of_real (- r / g) * (b0 * e)"
    by simp
  then have "Re (- b0 * complex_of_real r / complex_of_real g * e) = (- r / g) * R"
    unfolding R_def
    by (simp only: Re_complex_of_real Im_complex_of_real times_complex.sel
        mult_zero_left diff_zero)
  also have "(- r / g) * R = - R * r / g"
    by simp
  finally show ?thesis
    unfolding R_def .
qed

text \<open>
  Claim C5, as amended.  For every common choice of arguments with \<open>g \<noteq> 0\<close> and
  \<open>N\<^sup>2 \<noteq> om\<^sup>2\<close>, and for either kind of operands, \<open>b\<close> returns a real number and \<open>rho\<close>
  returns \<open>- b * rho_0 / g\<close>.
\<close>

theorem rho_from_b:
  assumes "g \<noteq> 0" and "N\<^sup>2 \<noteq> om\<^sup>2"
  shows "\<exists>bv. b kind x y z t phi_0 k l m om N U V W phase_0 = Inr (Fin bv)
     \<and> rho kind x y z t phi_0 k l m om N U V W phase_0 g rho_0
         = Inr (Fin (- bv * rho_0 / g))"
proof -
  define b0 where "b0 = \<i> * complex_of_real m * complex_of_real (N\<^sup>2)
      / complex_of_real (N\<^sup>2 - om\<^sup>2) * phi_0"
  define ph where "ph = wave_phase x y z t k l m om U V W phase_0"
  have B: "B_0 kind phi_0 m om N = Inr (cfin b0)"
    unfolding b0_def using assms(2) by (rule B_0_regular)
  have R: "RHO_0 kind phi_0 m om N g rho_0
      = Inr (cfin (- b0 * complex_of_real rho_0 / complex_of_real g))"
    using B assms(1) by (rule RHO_0_of_B_0)
  have "b kind x y z t phi_0 k l m om N U V W phase_0 = Inr (Fin (Re (b0 * exp ph)))"
    unfolding b_def Let_def B ph_def carrier_cfin ..
  moreover have "rho kind x y z t phi_0 k l m om N U V W phase_0 g rho_0
      = Inr (Fin (- Re (b0 * exp ph) * rho_0 / g))"
    unfolding rho_def Let_def R ph_def carrier_cfin Re_scaled ..
  ultimately show ?thesis
    by blast
qed

theorem rho_from_b_witness:
  "b Builtin 0 0 0 0 (Complex 0 (- 3)) 1 0 1 1 2 0 0 0 0 = Inr (Fin 4)
   \<and> rho Builtin 0 0 0 0 (Complex 0 (- 3)) 1 0 1 1 2 0 0 0 0 (- 10) 1000 = Inr (Fin 400)
   \<and> rho Ndarray 0 0 0 0 (Complex 0 (- 3)) 1 0 1 1 2 0 0 0 0 (- 10) 1000 = Inr (Fin 400)"
proof -
  have B: "B_0 kind (Complex 0 (- 3)) 1 1 2 = Inr (cfin 4)" for kind
    using B_0_regular [of 2 1 kind "Complex 0 (- 3)" 1] by (simp add: cfin_def)
  have bv: "b kind 0 0 0 0 (Complex 0 (- 3)) 1 0 1 1 2 0 0 0 0 = Inr (Fin 4)" for kind
    by (simp add: b_def B carrier_cfin wave_phase_def)
  from rho_from_b [of "- 10" 2 1 Builtin 0 0 0 0 "Complex 0 (- 3)" 1 0 1 0 0 0 0 1000]
    rho_from_b [of "- 10" 2 1 Ndarray 0 0 0 0 "Complex 0 (- 3)" 1 0 1 0 0 0 0 1000]
    bv [of Builtin] bv [of Ndarray]
  show ?thesis
    by simp
qed

text \<open>
  Without the two conditions the claim fails.  At \<open>g = 0\<close> and with built-in operands,
  \<open>rho\<close> raises \<^verbatim>\<open>ZeroDivisionError\<close> in \<open>RHO_0\<close> and has no output.  With \<^verbatim>\<open>ndarray\<close>
  operands at the same arguments \<open>b\<close> returns \<open>4\<close>, so \<open>- b * rho_0 / g\<close> is \<open>-4000 / 0\<close>,
  which is minus infinity, while \<open>rho\<close> returns NaN.
\<close>

theorem rho_without_gravity:
  "rho Builtin 0 0 0 0 (Complex 0 (- 3)) 1 0 1 1 2 0 0 0 0 0 1000 = Inl ZeroDivisionError
   \<and> b Ndarray 0 0 0 0 (Complex 0 (- 3)) 1 0 1 1 2 0 0 0 0 = Inr (Fin 4)
   \<and> np_divide (np_times (np_neg (Fin 4)) (Fin 1000)) (Fin 0) = NInf
   \<and> rho Ndarray 0 0 0 0 (Complex 0 (- 3)) 1 0 1 1 2 0 0 0 0 0 1000 = Inr NaN"
proof -
  have B: "B_0 kind (Complex 0 (- 3)) 1 1 2 = Inr (cfin 4)" for kind
    using B_0_regular [of 2 1 kind "Complex 0 (- 3)" 1] by (simp add: cfin_def)
  have "RHO_0 Builtin (Complex 0 (- 3)) 1 1 2 0 1000 = Inl ZeroDivisionError"
    by (simp add: RHO_0_def B c_divide_def)
  then have 1: "rho Builtin 0 0 0 0 (Complex 0 (- 3)) 1 0 1 1 2 0 0 0 0 0 1000
      = Inl ZeroDivisionError"
    by (simp add: rho_def carrier_def)
  have 2: "b Ndarray 0 0 0 0 (Complex 0 (- 3)) 1 0 1 1 2 0 0 0 0 = Inr (Fin 4)"
    by (simp add: b_def B carrier_cfin wave_phase_def)
  have 3: "np_divide (np_times (np_neg (Fin 4)) (Fin 1000)) (Fin 0) = NInf"
    by simp
  have "RHO_0 Ndarray (Complex 0 (- 3)) 1 1 2 0 1000 = Inr (NInf, NaN)"
    by (simp add: RHO_0_def B c_divide_def nc_divide_def nc_neg_def nc_times_def
        np_minus_def cfin_def)
  then have 4: "rho Ndarray 0 0 0 0 (Complex 0 (- 3)) 1 0 1 1 2 0 0 0 0 0 1000 = Inr NaN"
    by (simp add: rho_def carrier_def np_real_def nc_times_def np_minus_def cfin_def
        wave_phase_def)
  from 1 2 3 4 show ?thesis
    by blast
qed

section \<open>The angle of the wavevector\<close>

lemma sin_ratio_bounds:
  fixes k l m :: real
  assumes "k \<noteq> 0 \<or> l \<noteq> 0 \<or> m \<noteq> 0"
  shows "0 \<le> sqrt (m\<^sup>2 / (k\<^sup>2 + l\<^sup>2 + m\<^sup>2))" and "sqrt (m\<^sup>2 / (k\<^sup>2 + l\<^sup>2 + m\<^sup>2)) \<le> 1"
proof -
  have pos: "0 < k\<^sup>2 + l\<^sup>2 + m\<^sup>2"
    using assms by (rule wavevector_sq_pos)
  show "0 \<le> sqrt (m\<^sup>2 / (k\<^sup>2 + l\<^sup>2 + m\<^sup>2))"
    using pos by simp
  have "m\<^sup>2 \<le> k\<^sup>2 + l\<^sup>2 + m\<^sup>2"
    by simp
  then have "m\<^sup>2 / (k\<^sup>2 + l\<^sup>2 + m\<^sup>2) \<le> 1"
    using pos by (simp add: divide_le_eq)
  then show "sqrt (m\<^sup>2 / (k\<^sup>2 + l\<^sup>2 + m\<^sup>2)) \<le> 1"
    by simp
qed

lemma phip_regular:
  assumes "k \<noteq> 0 \<or> l \<noteq> 0 \<or> m \<noteq> 0"
  shows "phip k m l = Fin (arcsin (sqrt (m\<^sup>2 / (k\<^sup>2 + l\<^sup>2 + m\<^sup>2))))"
proof -
  have nz: "k\<^sup>2 + l\<^sup>2 + m\<^sup>2 \<noteq> 0"
    using wavevector_sq_pos [OF assms] by simp
  have nn: "\<not> m\<^sup>2 / (k\<^sup>2 + l\<^sup>2 + m\<^sup>2) < 0"
    using wavevector_sq_pos [OF assms] by (simp add: not_less)
  have lo: "- 1 \<le> sqrt (m\<^sup>2 / (k\<^sup>2 + l\<^sup>2 + m\<^sup>2))"
    using sin_ratio_bounds(1) [OF assms] by linarith
  show ?thesis
    unfolding phip_def
    by (simp only: np_divide.simps np_sqrt.simps np_arcsin.simps nz nn lo
        sin_ratio_bounds(2) [OF assms] if_True if_False simp_thms)
qed

lemma sqrt_half: "sqrt (1 / 2) = sqrt 2 / 2"
  by (simp add: real_sqrt_divide real_div_sqrt)

lemma arcsin_sqrt_half: "arcsin (sqrt (1 / 2)) = pi / 4"
proof -
  have "arcsin (sin (pi / 4)) = pi / 4"
    by (rule arcsin_sin) simp_all
  then show ?thesis
    by (simp only: sin_45 sqrt_half)
qed

text \<open>
  Claim C6.  For all real \<open>k\<close>, \<open>m\<close>, \<open>l\<close> with \<open>(k, l, m)\<close> not all zero, \<open>phip k m l\<close> is
  \<open>arcsin (sqrt (m\<^sup>2 / (k\<^sup>2 + l\<^sup>2 + m\<^sup>2)))\<close> and lies in the interval from \<open>0\<close> to \<open>pi / 2\<close>;
  in particular \<open>phip 1 1 0\<close> is \<open>pi / 4\<close>.
\<close>

theorem phip_angle:
  "(k \<noteq> 0 \<or> l \<noteq> 0 \<or> m \<noteq> 0 \<longrightarrow>
      phip k m l = Fin (arcsin (sqrt (m\<^sup>2 / (k\<^sup>2 + l\<^sup>2 + m\<^sup>2))))
      \<and> 0 \<le> arcsin (sqrt (m\<^sup>2 / (k\<^sup>2 + l\<^sup>2 + m\<^sup>2)))
      \<and> arcsin (sqrt (m\<^sup>2 / (k\<^sup>2 + l\<^sup>2 + m\<^sup>2))) \<le> pi / 2)
   \<and> phip 1 1 0 = Fin (pi / 4)"
proof (intro conjI impI)
  assume nz: "k \<noteq> 0 \<or> l \<noteq> 0 \<or> m \<noteq> 0"
  note s = sin_ratio_bounds [OF nz]
  show "phip k m l = Fin (arcsin (sqrt (m\<^sup>2 / (k\<^sup>2 + l\<^sup>2 + m\<^sup>2))))"
    using nz by (rule phip_regular)
  have "arcsin 0 \<le> arcsin (sqrt (m\<^sup>2 / (k\<^sup>2 + l\<^sup>2 + m\<^sup>2)))"
    using s by (intro arcsin_le_arcsin) simp_all
  then show "0 \<le> arcsin (sqrt (m\<^sup>2 / (k\<^sup>2 + l\<^sup>2 + m\<^sup>2)))"
    by simp
  have "- 1 \<le> sqrt (m\<^sup>2 / (k\<^sup>2 + l\<^sup>2 + m\<^sup>2))"
    using s(1) by linarith
  then show "arcsin (sqrt (m\<^sup>2 / (k\<^sup>2 + l\<^sup>2 + m\<^sup>2))) \<le> pi / 2"
    using s(2) by (rule arcsin_ubound)
next
  have "phip 1 1 0 = Fin (arcsin (sqrt (1\<^sup>2 / (1\<^sup>2 + 0\<^sup>2 + 1\<^sup>2))))"
    by (rule phip_regular) simp
  also have "(1::real)\<^sup>2 / (1\<^sup>2 + 0\<^sup>2 + 1\<^sup>2) = 1 / 2"
    by simp
  finally show "phip 1 1 0 = Fin (pi / 4)"
    by (simp only: arcsin_sqrt_half)
qed

theorem phip_angle_witness:
  "phip 0 3 0 = Fin (pi / 2) \<and> phip 2 0 1 = Fin 0"
  using phip_angle [of 0 0 3] phip_angle [of 2 1 0] by simp

section \<open>The velocity stack\<close>

lemma zip_columns:
  "zip (map (\<lambda>(x, y, z). x) r) (zip (map (\<lambda>(x, y, z). y) r) (map (\<lambda>(x, y, z). z) r)) = r"
  by (induction r) auto

lemma transpose_three:
  assumes "length as = n" "length bs = n" "length cs = n"
  shows "transpose [as, bs, cs] = map (\<lambda>i. [as ! i, bs ! i, cs ! i]) [0..<n]"
proof -
  have len: "\<And>i. i < length [as, bs, cs] \<Longrightarrow> length ([as, bs, cs] ! i) = n"
    using assms by (simp add: nth_Cons split: nat.splits)
  have three: "[0..<length [as, bs, cs]] = [0, 1, 2]"
    by (simp add: upt_rec)
  have "transpose [as, bs, cs]
      = map (\<lambda>i. map (\<lambda>j. [as, bs, cs] ! j ! i) [0..<length [as, bs, cs]]) [0..<n]"
    by (rule transpose_rectangle) (simp, rule len)
  then show ?thesis
    unfolding three by simp
qed

lemma wave_vel_returned:
  assumes "U_0 kind phi_0 k l om f = Inr ua"
    and "V_0 kind phi_0 k l om f = Inr va"
    and "W_0 kind phi_0 m om N = Inr wa"
  shows "wave_vel kind r t phi_0 N f k l m om U V W phase_0 =
     Inr (map (\<lambda>p. case r ! p of (x, y, z) \<Rightarrow>
            [np_real (nc_times ua (cfin (exp (wave_phase x y z t k l m om U V W phase_0)))),
             np_real (nc_times va (cfin (exp (wave_phase x y z t k l m om U V W phase_0)))),
             np_real (nc_times wa (cfin (exp (wave_phase x y z t k l m om U V W phase_0))))])
       [0..<length r])"
proof -
  let ?ph = "map (\<lambda>(x, y, z). wave_phase x y z t k l m om U V W phase_0) r"
  let ?us = "map (\<lambda>ph. np_real (nc_times ua (cfin (exp ph)))) ?ph"
  let ?vs = "map (\<lambda>ph. np_real (nc_times va (cfin (exp ph)))) ?ph"
  let ?ws = "map (\<lambda>ph. np_real (nc_times wa (cfin (exp ph)))) ?ph"
  have "wave_vel kind r t phi_0 N f k l m om U V W phase_0 = Inr (transpose [?us, ?vs, ?ws])"
    unfolding wave_vel_def Let_def zip_columns assms by simp
  also have "transpose [?us, ?vs, ?ws] = map (\<lambda>i. [?us ! i, ?vs ! i, ?ws ! i]) [0..<length r]"
    by (rule transpose_three) simp_all
  also have "\<dots> = map (\<lambda>p. case r ! p of (x, y, z) \<Rightarrow>
            [np_real (nc_times ua (cfin (exp (wave_phase x y z t k l m om U V W phase_0)))),
             np_real (nc_times va (cfin (exp (wave_phase x y z t k l m om U V W phase_0)))),
             np_real (nc_times wa (cfin (exp (wave_phase x y z t k l m om U V W phase_0))))])
       [0..<length r]"
    by (rule map_cong) (auto split: prod.splits)
  finally show ?thesis .
qed

text \<open>
  Claim C7, as amended.  For a position stack \<open>r\<close> of shape \<open>(P, 3)\<close>, a scalar \<open>t\<close> and wave
  parameters with \<open>om\<^sup>2 \<noteq> f\<^sup>2\<close> and \<open>N\<^sup>2 \<noteq> om\<^sup>2\<close>, \<open>wave_vel\<close> returns an array of shape
  \<open>(P, 3)\<close> whose row \<open>p\<close> is \<open>(u, v, w)\<close> evaluated at the point \<open>(r[p,0], r[p,1], r[p,2], t)\<close>
  with the same wave parameters: \<open>u\<close> and \<open>v\<close> receive the same \<open>f\<close>, \<open>w\<close> receives the same
  \<open>N\<close>.
\<close>

theorem wave_vel_rows:
  assumes "om\<^sup>2 \<noteq> f\<^sup>2" and "N\<^sup>2 \<noteq> om\<^sup>2"
  shows "\<exists>rows. wave_vel kind r t phi_0 N f k l m om U V W phase_0 = Inr rows
     \<and> length rows = length r
     \<and> (\<forall>p<length r. length (rows ! p) = 3
          \<and> (case r ! p of (x, y, z) \<Rightarrow>
               u kind x y z t phi_0 k l m om f U V W phase_0 = Inr (rows ! p ! 0)
             \<and> v kind x y z t phi_0 k l m om f U V W phase_0 = Inr (rows ! p ! 1)
             \<and> w kind x y z t phi_0 k l m om N U V W phase_0 = Inr (rows ! p ! 2)))"
proof -
  obtain ua va wa where amp:
    "U_0 kind phi_0 k l om f = Inr ua"
    "V_0 kind phi_0 k l om f = Inr va"
    "W_0 kind phi_0 m om N = Inr wa"
    using U_0_regular [OF assms(1)] V_0_regular [OF assms(1)] W_0_regular [OF assms(2)]
    by blast
  show ?thesis
    unfolding wave_vel_returned [OF amp] u_def v_def w_def Let_def amp carrier_def
    by (auto split: prod.splits)
qed

theorem wave_vel_rows_witness:
  "\<exists>rows. wave_vel Builtin [(0, 0, 0), (1, 2, 3)] 0 2 2 0 1 0 0 1 0 0 0 0 = Inr rows
     \<and> length rows = 2 \<and> length (rows ! 1) = 3
     \<and> rows ! 0 ! 0 = Fin 2 \<and> rows ! 0 ! 1 = Fin 0 \<and> rows ! 0 ! 2 = Fin 0"
proof -
  have u0: "u Builtin 0 0 0 0 2 1 0 0 1 0 0 0 0 0 = Inr (Fin 2)"
    using U_0_regular [of 1 0 Builtin 2 1 0]
    by (simp add: u_def carrier_def np_real_def nc_times_def np_minus_def cfin_def
        wave_phase_def)
  have v0: "v Builtin 0 0 0 0 2 1 0 0 1 0 0 0 0 0 = Inr (Fin 0)"
    using V_0_regular [of 1 0 Builtin 2 1 0]
    by (simp add: v_def carrier_def np_real_def nc_times_def np_minus_def cfin_def
        wave_phase_def)
  have w0: "w Builtin 0 0 0 0 2 1 0 0 1 2 0 0 0 0 = Inr (Fin 0)"
    using W_0_regular [of 2 1 Builtin 2 0]
    by (simp add: w_def carrier_def np_real_def nc_times_def np_minus_def cfin_def
        wave_phase_def)
  from wave_vel_rows [of 1 0 2 Builtin "[(0, 0, 0), (1, 2, 3)]" 0 2 1 0 0 0 0 0 0]
  obtain rows where rows:
    "wave_vel Builtin [(0, 0, 0), (1, 2, 3)] 0 2 2 0 1 0 0 1 0 0 0 0 = Inr rows"
    "length rows = 2"
    "\<forall>p<2. length (rows ! p) = 3
          \<and> (case [(0, 0, 0), (1, 2, 3)] ! p of (x, y, z) \<Rightarrow>
               u Builtin x y z 0 2 1 0 0 1 0 0 0 0 0 = Inr (rows ! p ! 0)
             \<and> v Builtin x y z 0 2 1 0 0 1 0 0 0 0 0 = Inr (rows ! p ! 1)
             \<and> w Builtin x y z 0 2 1 0 0 1 2 0 0 0 0 = Inr (rows ! p ! 2))"
    by auto
  from rows(3) have "length (rows ! 1) = 3"
    by simp
  moreover from rows(3) have "u Builtin 0 0 0 0 2 1 0 0 1 0 0 0 0 0 = Inr (rows ! 0 ! 0)"
    "v Builtin 0 0 0 0 2 1 0 0 1 0 0 0 0 0 = Inr (rows ! 0 ! 1)"
    "w Builtin 0 0 0 0 2 1 0 0 1 2 0 0 0 0 = Inr (rows ! 0 ! 2)"
    by (auto dest: spec [of _ 0])
  ultimately show ?thesis
    using rows(1,2) u0 v0 w0 by auto
qed

text \<open>
  Without the two conditions the claim fails for built-in wave parameters: with
  \<open>om\<^sup>2 = f\<^sup>2\<close> the amplitude \<open>U_0\<close> raises \<^verbatim>\<open>ZeroDivisionError\<close> and \<open>wave_vel\<close> returns no
  array.
\<close>

theorem wave_vel_inertial_raises:
  "wave_vel Builtin [(0, 0, 0)] 0 2 2 1 1 0 0 1 0 0 0 0 = Inl ZeroDivisionError"
  by (simp add: wave_vel_def U_0_def c_divide_def)

section \<open>Vertical group velocity\<close>

lemma powr_half: "0 \<le> a \<Longrightarrow> a powr 0.5 = sqrt a"
  by (simp add: powr_half_sqrt)

lemma powr_three_halves:
  assumes "0 < a"
  shows "a powr 1.5 = a * sqrt a"
proof -
  have "(1.5::real) = 1 + 1 / 2"
    by simp
  then have "a powr 1.5 = a powr 1 * a powr (1 / 2)"
    by (simp only: powr_add)
  then show ?thesis
    using assms by (simp add: powr_half_sqrt)
qed

lemma cgz_regular:
  assumes K: "0 < k\<^sup>2 + l\<^sup>2 + m\<^sup>2" and A: "0 < f\<^sup>2 * m\<^sup>2 + N\<^sup>2 * (k\<^sup>2 + l\<^sup>2)"
  shows "cgz k m N l f =
    Fin (- m * (N\<^sup>2 - f\<^sup>2) * (k\<^sup>2 + l\<^sup>2)
         / ((k\<^sup>2 + l\<^sup>2 + m\<^sup>2) * sqrt (k\<^sup>2 + l\<^sup>2 + m\<^sup>2)
            * sqrt (f\<^sup>2 * m\<^sup>2 + N\<^sup>2 * (k\<^sup>2 + l\<^sup>2))))"
proof -
  have p1: "np_power (k\<^sup>2 + l\<^sup>2 + m\<^sup>2) 1.5 = Fin ((k\<^sup>2 + l\<^sup>2 + m\<^sup>2) * sqrt (k\<^sup>2 + l\<^sup>2 + m\<^sup>2))"
  proof -
    have "\<not> k\<^sup>2 + l\<^sup>2 + m\<^sup>2 < 0"
      using K by simp
    then show ?thesis
      by (simp only: np_power_def powr_three_halves [OF K] if_False)
  qed
  have p2: "np_power (f\<^sup>2 * m\<^sup>2 + N\<^sup>2 * (k\<^sup>2 + l\<^sup>2)) 0.5 = Fin (sqrt (f\<^sup>2 * m\<^sup>2 + N\<^sup>2 * (k\<^sup>2 + l\<^sup>2)))"
  proof -
    have nn: "0 \<le> f\<^sup>2 * m\<^sup>2 + N\<^sup>2 * (k\<^sup>2 + l\<^sup>2)"
      and "\<not> f\<^sup>2 * m\<^sup>2 + N\<^sup>2 * (k\<^sup>2 + l\<^sup>2) < 0"
      using A by simp_all
    then show ?thesis
      by (simp only: np_power_def powr_half [OF nn] if_False)
  qed
  have nz: "(k\<^sup>2 + l\<^sup>2 + m\<^sup>2) * sqrt (k\<^sup>2 + l\<^sup>2 + m\<^sup>2) * sqrt (f\<^sup>2 * m\<^sup>2 + N\<^sup>2 * (k\<^sup>2 + l\<^sup>2)) \<noteq> 0"
    using K A by simp
  show ?thesis
    unfolding cgz_def Let_def p1 p2
    by (simp only: np_times.simps np_divide.simps nz if_True simp_thms)
qed

lemma cgvec_vertical_regular:
  assumes K: "0 < k\<^sup>2 + l\<^sup>2 + m\<^sup>2" and A: "0 < f\<^sup>2 * m\<^sup>2 + N\<^sup>2 * (k\<^sup>2 + l\<^sup>2)"
  shows "cgvec k l m N f ! 2 =
    Fin (- \<bar>m\<bar> * (N\<^sup>2 - f\<^sup>2) * (k\<^sup>2 + l\<^sup>2)
         / ((k\<^sup>2 + l\<^sup>2 + m\<^sup>2) * sqrt (k\<^sup>2 + l\<^sup>2 + m\<^sup>2)
            * sqrt (f\<^sup>2 * m\<^sup>2 + N\<^sup>2 * (k\<^sup>2 + l\<^sup>2))))"
proof -
  define K2 where "K2 = k\<^sup>2 + l\<^sup>2 + m\<^sup>2"
  define A2 where "A2 = f\<^sup>2 * m\<^sup>2 + N\<^sup>2 * (k\<^sup>2 + l\<^sup>2)"
  define H2 where "H2 = k\<^sup>2 + l\<^sup>2"
  define D where "D = N\<^sup>2 - f\<^sup>2"
  define s where "s = sqrt (m\<^sup>2 / K2)"
  define c where "c = cos (arcsin s)"
  have Kpos: "0 < K2" and Apos: "0 < A2"
    using K A by (simp_all add: K2_def A2_def)
  have nz: "k \<noteq> 0 \<or> l \<noteq> 0 \<or> m \<noteq> 0"
    using K by (auto simp: power2_eq_square)
  have om: "omega N k m l f = Fin (sqrt (A2 / K2))"
    using omega_regular [OF nz] by (simp add: A2_def K2_def)
  have s_eq: "s = \<bar>m\<bar> / sqrt K2"
    by (simp add: s_def real_sqrt_divide)
  have s_lo: "0 \<le> s"
    using Kpos by (simp add: s_def)
  have "m\<^sup>2 / K2 \<le> 1"
    using Kpos by (simp add: divide_le_eq K2_def)
  then have s_hi: "s \<le> 1"
    by (simp add: s_def)
  have ph: "phip k m l = Fin (arcsin s)"
    using phip_regular [OF nz] by (simp add: s_def K2_def)
  have sn: "sin (arcsin s) = s"
    using s_lo s_hi by (intro sin_arcsin) simp_all
  have "c = sqrt (1 - s\<^sup>2)"
    unfolding c_def using s_lo s_hi by (intro cos_arcsin) simp_all
  moreover have "1 - s\<^sup>2 = H2 / K2"
    using Kpos by (simp add: s_def H2_def K2_def field_simps)
  moreover have "0 \<le> H2 / K2"
    using Kpos by (simp add: H2_def)
  ultimately have "c = sqrt (H2 / K2)" and nn: "0 \<le> H2 / K2"
    by simp_all
  then have "c * c = \<bar>H2 / K2\<bar>"
    by (simp only: real_sqrt_mult_self)
  with nn have cc: "c * c = H2 / K2"
    by (simp only: abs_of_nonneg)
  have root: "sqrt (A2 / K2) * sqrt K2 = sqrt A2"
    using Kpos by (simp add: real_sqrt_divide)
  have den_nz: "sqrt (A2 / K2) * sqrt K2 \<noteq> 0"
    using Apos root by simp
  have "cgvec k l m N f ! 2 =
      np_times
        (np_divide (np_times (np_times (Fin c) (Fin s)) (Fin D))
           (np_times (Fin (sqrt (A2 / K2))) (np_sqrt (Fin K2))))
        (np_neg (Fin c))"
    unfolding cgvec_def Let_def om ph
    by (simp add: c_def sn D_def K2_def)
  also have "\<dots> = Fin (c * s * D / (sqrt (A2 / K2) * sqrt K2) * (- c))"
    using Kpos den_nz by simp
  also have "c * s * D / (sqrt (A2 / K2) * sqrt K2) * (- c) = - ((c * c) * s * D / sqrt A2)"
    unfolding root by simp
  also have "\<dots> = - \<bar>m\<bar> * D * H2 / (K2 * sqrt K2 * sqrt A2)"
    unfolding cc s_eq by simp
  finally show ?thesis
    unfolding K2_def A2_def H2_def D_def .
qed

text \<open>
  Claim C9.  For all real \<open>k\<close>, \<open>l\<close>, \<open>m\<close>, \<open>N\<close>, \<open>f\<close> with \<open>m \<ge> 0\<close>, \<open>(k, l)\<close> not both zero and the
  denominator of \<open>cgz\<close> nonzero, the third component of the vector returned by \<open>cgvec\<close>
  equals \<open>cgz k m N l f\<close>, a finite number: the two computations of the vertical group
  velocity agree.
\<close>

theorem cgvec_vertical_is_cgz:
  assumes "0 \<le> m" and "k \<noteq> 0 \<or> l \<noteq> 0"
    and "(k\<^sup>2 + l\<^sup>2 + m\<^sup>2) powr 1.5 * (f\<^sup>2 * m\<^sup>2 + N\<^sup>2 * (k\<^sup>2 + l\<^sup>2)) powr 0.5 \<noteq> 0"
  shows "cgvec k l m N f ! 2 = cgz k m N l f
       \<and> (\<exists>c. cgz k m N l f = Fin c)"
proof -
  have K: "0 < k\<^sup>2 + l\<^sup>2 + m\<^sup>2"
    using assms(2) by (intro wavevector_sq_pos) auto
  have "0 \<le> f\<^sup>2 * m\<^sup>2 + N\<^sup>2 * (k\<^sup>2 + l\<^sup>2)"
    by simp
  moreover have "f\<^sup>2 * m\<^sup>2 + N\<^sup>2 * (k\<^sup>2 + l\<^sup>2) \<noteq> 0"
    using assms(3) by auto
  ultimately have A: "0 < f\<^sup>2 * m\<^sup>2 + N\<^sup>2 * (k\<^sup>2 + l\<^sup>2)"
    by linarith
  have "\<bar>m\<bar> = m"
    using assms(1) by simp
  then show ?thesis
    using cgvec_vertical_regular [OF K A] cgz_regular [OF K A] by simp
qed

theorem cgvec_vertical_is_cgz_witness:
  "cgvec 3 0 4 1 0 ! 2 = Fin (- (12 / 125)) \<and> cgz 3 4 1 0 0 = Fin (- (12 / 125))"
proof -
  have r25: "sqrt (25::real) = 5" and r9: "sqrt (9::real) = 3"
    by (rule real_sqrt_unique, simp, simp)+
  have den: "((3::real)\<^sup>2 + 0\<^sup>2 + 4\<^sup>2) powr 1.5 * (0\<^sup>2 * 4\<^sup>2 + 1\<^sup>2 * (3\<^sup>2 + 0\<^sup>2)) powr 0.5 \<noteq> 0"
    by simp
  have val: "cgz 3 4 1 0 0 = Fin (- (12 / 125))"
    using cgz_regular [where k = 3 and l = 0 and m = 4 and N = 1 and f = 0]
    by (simp add: r25 r9)
  from cgvec_vertical_is_cgz [where k = 3 and l = 0 and m = 4 and N = 1 and f = 0] den val
  show ?thesis
    by simp
qed

end
